theory Spec2Isabelle
  imports Main "HOL-Library.Finite_Map"
begin

section \<open>The route-table resource of kubicorn (cloud/amazon/resources/routetable.go)\<close>

text \<open>
  The Go file implements the reconciliation contract \<open>Actual\<close>, \<open>Expected\<close>, \<open>Apply\<close>,
  \<open>Delete\<close>, \<open>Render\<close>, \<open>Tag\<close> for one resource kind. The embedding keeps
  \<^item> the \<open>*RouteTable\<close> objects in an explicit store (a list indexed by address), because
    \<open>Apply\<close> writes to the object behind its \<open>expected\<close> argument and \<open>Actual\<close> and
    \<open>Expected\<close> write the cache fields of the receiver;
  \<^item> the provider (\<open>Sdk.Ec2\<close>, a global in the Go code) as a parameter: one state
    transition per API call, over a provider state of any type, and a log of the requests
    sent;
  \<^item> every \<open>return nil, err\<close> as \<open>Err\<close>, and every run-time panic of Go (nil dereference,
    index out of range, failed type assertion) as \<open>Panic\<close>;
  \<^item> calls of \<open>logger\<close> only through the pointers they dereference.
\<close>

subsection \<open>Cluster model\<close>

text \<open>
  Modelled from the spec: the declarations of \<open>cluster.Subnet\<close>, \<open>cluster.ServerPool\<close>,
  \<open>cluster.Network\<close> and \<open>cluster.Cluster\<close> are outside routetable.go. The fields are those
  of the spec's data model, which are also the only ones routetable.go reads. Elements of
  \<open>ServerPools\<close> and \<open>Subnets\<close> and the \<open>Network\<close> are taken to be present (not nil).
\<close>

record Subnet =
  Name :: string
  Identifier :: string

record ServerPool =
  Name :: string
  Identifier :: string
  Subnets :: "Subnet list"

record Network =
  Identifier :: string

record Cluster =
  Name :: string
  Network :: Network
  ServerPools :: "ServerPool list"

subsection \<open>Resources and the store\<close>

type_synonym ptr = "nat option"

text \<open>
  A value of the interface \<open>cloud.Resource\<close>: the nil interface, a \<open>*RouteTable\<close> (possibly
  a nil pointer of that type), or a resource of another kind.
\<close>

datatype resource = NilResource | RouteTablePtr ptr | OtherResource

text \<open>
  Modelled from the spec: the struct \<open>Shared\<close> embedded in \<open>RouteTable\<close> is declared outside
  routetable.go; its fields \<open>Name\<close>, \<open>CloudID\<close>, \<open>Tags\<close>, \<open>TagResource\<close>, \<open>CachedActual\<close>,
  \<open>CachedExpected\<close> are the ones routetable.go uses (the spec's snapshot is the first three).
  \<open>ClusterSubnet\<close> and \<open>ServerPool\<close> are pointers into the cluster model, which no function
  of this file writes to: they are held by value, \<open>None\<close> for nil. A Go map is a
  reference, but only \<open>Actual\<close> writes to a map, and only to the one it has just made; so
  \<open>Tags\<close> is a finite map held by value, and the nil map is the empty map.
\<close>

record RouteTable =
  Name :: string
  CloudID :: string
  Tags :: "(string, string) fmap"
  TagResource :: resource
  CachedActual :: resource
  CachedExpected :: resource
  ClusterSubnet :: "Subnet option"
  ServerPool :: "ServerPool option"

text \<open>The zero value \<open>&RouteTable{}\<close>.\<close>

definition zeroRouteTable :: RouteTable where
  "zeroRouteTable =
     \<lparr>RouteTable.Name = '''', CloudID = '''', Tags = fmempty, TagResource = NilResource,
      CachedActual = NilResource, CachedExpected = NilResource,
      ClusterSubnet = None, ServerPool = None\<rparr>"

text \<open>
  Reading through a pointer: \<open>None\<close> for the nil pointer. An address beyond the store is no
  pointer a Go program can hold; it reads as nil.
\<close>

definition deref :: "RouteTable list \<Rightarrow> ptr \<Rightarrow> RouteTable option" where
  "deref h p = (case p of None \<Rightarrow> None
                | Some a \<Rightarrow> if a < length h then Some (h ! a) else None)"

subsection \<open>Provider API (aws-sdk-go, service/ec2)\<close>

text \<open>
  Pointer fields of the SDK's structs that the code reads are options. The output struct
  of a call is taken to be present whenever the call's error is nil.
\<close>

record ec2_Tag =
  Key :: "string option"
  Value :: "string option"

record ec2_RouteTableAssociation =
  RouteTableAssociationId :: "string option"

record ec2_RouteTable =
  RouteTableId :: "string option"
  Tags :: "ec2_Tag option list"
  Associations :: "ec2_RouteTableAssociation option list"

record ec2_InternetGateway =
  InternetGatewayId :: "string option"

record ec2_Filter =
  Name :: string
  Values :: "string list"

text \<open>
  The requests. A field is a \<open>string\<close> where the code passes a pointer it has made or
  already dereferenced, and an option where it passes on a pointer of a response unread.
  \<open>Tag\<close> builds the tag list of \<open>CreateTagsInput\<close> by ranging over a Go map, in an order the
  language leaves open: the request carries the mapping.
\<close>

datatype request =
    DescribeRouteTablesInput "ec2_Filter list"
  | CreateRouteTableInput string
  | DescribeInternetGatewaysInput "ec2_Filter list"
  | CreateRouteInput string string string
  | AssociateRouteTableInput string string
  | DisassociateRouteTableInput "string option"
  | DeleteRouteTableInput "string option"
  | CreateTagsInput "string list" "(string, string) fmap"

text \<open>
  One field per API call: from the provider's state and the request's fields to the
  error or the output, and the provider's next state. \<open>CreateRoute\<close> takes
  \<open>DestinationCidrBlock\<close>, \<open>GatewayId\<close>, \<open>RouteTableId\<close>; \<open>AssociateRouteTable\<close> takes
  \<open>SubnetId\<close>, \<open>RouteTableId\<close>; \<open>CreateTags\<close> takes \<open>Resources\<close>, \<open>Tags\<close>.
\<close>

record 'p Ec2 =
  DescribeRouteTables :: "'p \<Rightarrow> ec2_Filter list \<Rightarrow> (string + ec2_RouteTable option list) \<times> 'p"
  CreateRouteTable :: "'p \<Rightarrow> string \<Rightarrow> (string + ec2_RouteTable option) \<times> 'p"
  DescribeInternetGateways ::
    "'p \<Rightarrow> ec2_Filter list \<Rightarrow> (string + ec2_InternetGateway option list) \<times> 'p"
  CreateRoute :: "'p \<Rightarrow> string \<Rightarrow> string \<Rightarrow> string \<Rightarrow> (string + unit) \<times> 'p"
  AssociateRouteTable :: "'p \<Rightarrow> string \<Rightarrow> string \<Rightarrow> (string + unit) \<times> 'p"
  DisassociateRouteTable :: "'p \<Rightarrow> string option \<Rightarrow> (string + unit) \<times> 'p"
  DeleteRouteTable :: "'p \<Rightarrow> string option \<Rightarrow> (string + unit) \<times> 'p"
  CreateTags :: "'p \<Rightarrow> string list \<Rightarrow> (string, string) fmap \<Rightarrow> (string + unit) \<times> 'p"

subsection \<open>World, errors and results\<close>

record 'p world =
  heap :: "RouteTable list"
  sdk :: 'p
  calls :: "request list"

text \<open>
  The errors the file returns:
  \<^item> \<open>SdkError\<close>: the \<open>err\<close> of a provider call, returned as it is (the spec's TransportFault);
  \<^item> \<open>FoundRouteTables n id\<close>: \<open>"Found [n] Route Tables for VPC ID [id]"\<close> and
    \<open>FoundInternetGateways n id\<close>: \<open>"Found [n] Internet Gateways for ID [id]"\<close>
    (CardinalityFault);
  \<^item> \<open>UnableToFindSubnetId\<close>: \<open>"Unable to find subnet id"\<close> (MissingPrerequisite);
  \<^item> \<open>UnableToDeleteWithoutID name\<close>:
    \<open>"Unable to delete routetable resource without ID [name]"\<close> (MissingIdentifier);
  \<^item> \<open>CompareError\<close>: the \<open>err\<close> of \<open>compare.IsEqual\<close>.
\<close>

datatype error =
    SdkError string
  | FoundRouteTables nat string
  | FoundInternetGateways nat string
  | UnableToFindSubnetId
  | UnableToDeleteWithoutID string
  | CompareError string

datatype panic = NilDereference | IndexOutOfRange | TypeAssertion

datatype 'a result = Ok 'a | Err error | Panic panic

text \<open>A provider call: the request is logged and the provider's state moves on.\<close>

definition invoke :: "('p \<Rightarrow> 'a \<times> 'p) \<Rightarrow> request \<Rightarrow> 'p world \<Rightarrow> 'a \<times> 'p world" where
  "invoke f rq w =
     (case f (sdk w) of (reply, s) \<Rightarrow> (reply, w\<lparr>sdk := s, calls := calls w @ [rq]\<rparr>))"

text \<open>
  Modelled from the spec: the helper \<open>S\<close> (a string to a \<open>*string\<close>) is declared outside
  routetable.go. The spec gives the filter's value as the subnet's name and the filter's
  name as the literal, so \<open>S\<close> returns its argument.
\<close>

definition S :: "string \<Rightarrow> string" where
  "S s = s"

definition pairFilter :: "string \<Rightarrow> ec2_Filter list" where
  "pairFilter name =
     [\<lparr>ec2_Filter.Name = S ''tag:kubicorn-route-table-subnet-pair'', Values = [S name]\<rparr>]"

definition gatewayFilter :: "string \<Rightarrow> ec2_Filter list" where
  "gatewayFilter name =
     [\<lparr>ec2_Filter.Name = S ''tag:kubicorn-internet-gateway-name'', Values = [S name]\<rparr>]"

subsection \<open>Actual\<close>

text \<open>Lines 65 to 69: the loop over \<open>rt.Tags\<close>, writing each pair into \<open>actual.Tags\<close>.\<close>

fun copyTags ::
  "ec2_Tag option list \<Rightarrow> (string, string) fmap \<Rightarrow> (string, string) fmap result" where
  "copyTags [] m = Ok m"
| "copyTags (None # ts) m = Panic NilDereference"
| "copyTags (Some tag # ts) m =
     (case Key tag of None \<Rightarrow> Panic NilDereference
      | Some key \<Rightarrow>
          (case Value tag of None \<Rightarrow> Panic NilDereference
           | Some val \<Rightarrow> copyTags ts (fmupd key val m)))"

text \<open>
  Lines 73 and 74: \<open>r.CachedActual = actual; return actual, nil\<close>. The object made at line
  39 enters the store here, where it first becomes reachable; on the error paths before,
  nothing refers to it.
\<close>

definition cacheActual :: "nat \<Rightarrow> RouteTable \<Rightarrow> 'p world \<Rightarrow> resource result \<times> 'p world" where
  "cacheActual a actual w =
     (let p = length (heap w);
          h = heap w @ [actual]
      in (Ok (RouteTablePtr (Some p)),
          w\<lparr>heap := h[a := (h ! a)\<lparr>CachedActual := RouteTablePtr (Some p)\<rparr>]\<rparr>))"

definition Actual :: "'p Ec2 \<Rightarrow> ptr \<Rightarrow> Cluster option \<Rightarrow> 'p world \<Rightarrow> resource result \<times> 'p world" where
  "Actual ec2 r known w =
     (case r of None \<Rightarrow> (Panic NilDereference, w)
      | Some a \<Rightarrow>
        if \<not> a < length (heap w) then (Panic NilDereference, w)
        else let R = heap w ! a in
          if CachedActual R \<noteq> NilResource then (Ok (CachedActual R), w)
          else let actual = zeroRouteTable\<lparr>RouteTable.Name := RouteTable.Name R,
                                            RouteTable.Tags := fmempty,
                                            TagResource := TagResource R\<rparr> in
            (case ClusterSubnet R of None \<Rightarrow> (Panic NilDereference, w)
             | Some sn \<Rightarrow>
               if Subnet.Identifier sn \<noteq> '''' then
                 (case invoke (\<lambda>s. DescribeRouteTables ec2 s (pairFilter (Subnet.Name sn)))
                         (DescribeRouteTablesInput (pairFilter (Subnet.Name sn))) w of
                    (Inl err, w1) \<Rightarrow> (Err (SdkError err), w1)
                  | (Inr rts, w1) \<Rightarrow>
                      let llc = length rts in
                      if llc \<noteq> 1 then (Err (FoundRouteTables llc (Subnet.Identifier sn)), w1)
                      else (case rts ! 0 of None \<Rightarrow> (Panic NilDereference, w1)
                            | Some rt \<Rightarrow>
                              (case copyTags (ec2_RouteTable.Tags rt) (RouteTable.Tags actual) of
                                 Panic p \<Rightarrow> (Panic p, w1)
                               | Err e \<Rightarrow> (Err e, w1)
                               | Ok tags \<Rightarrow>
                                   cacheActual a
                                     (actual\<lparr>RouteTable.Tags := tags,
                                             RouteTable.Name := Subnet.Name sn,
                                             CloudID := Subnet.Name sn\<rparr>) w1)))
               else cacheActual a actual w))"

subsection \<open>Expected\<close>

text \<open>Lines 95 and 96: \<open>r.CachedExpected = expected; return expected, nil\<close>.\<close>

definition cacheExpected :: "nat \<Rightarrow> RouteTable \<Rightarrow> 'p world \<Rightarrow> resource result \<times> 'p world" where
  "cacheExpected a expected w =
     (let p = length (heap w);
          h = heap w @ [expected]
      in (Ok (RouteTablePtr (Some p)),
          w\<lparr>heap := h[a := (h ! a)\<lparr>CachedExpected := RouteTablePtr (Some p)\<rparr>]\<rparr>))"

definition Expected :: "ptr \<Rightarrow> Cluster option \<Rightarrow> 'p world \<Rightarrow> resource result \<times> 'p world" where
  "Expected r known w =
     (case r of None \<Rightarrow> (Panic NilDereference, w)
      | Some a \<Rightarrow>
        if \<not> a < length (heap w) then (Panic NilDereference, w)
        else let R = heap w ! a in
          if CachedExpected R \<noteq> NilResource then (Ok (CachedExpected R), w)
          else
            (case known of None \<Rightarrow> (Panic NilDereference, w)
             | Some k \<Rightarrow>
               (case ClusterSubnet R of None \<Rightarrow> (Panic NilDereference, w)
                | Some sn \<Rightarrow>
                  (case ServerPool R of None \<Rightarrow> (Panic NilDereference, w)
                   | Some sp \<Rightarrow>
                     cacheExpected a
                       (zeroRouteTable\<lparr>
                          RouteTable.Tags :=
                            fmap_of_list
                              [(''Name'', RouteTable.Name R),
                               (''KubernetesCluster'', Cluster.Name k),
                               (''kubicorn-route-table-subnet-pair'', Subnet.Name sn)],
                          RouteTable.Name := ServerPool.Name sp,
                          TagResource := TagResource R,
                          CloudID := ServerPool.Name sp\<rparr>) w))))"

subsection \<open>Tag\<close>

definition Tag ::
  "'p Ec2 \<Rightarrow> ptr \<Rightarrow> (string, string) fmap \<Rightarrow> 'p world \<Rightarrow> unit result \<times> 'p world" where
  "Tag ec2 r tags w =
     (case deref (heap w) r of None \<Rightarrow> (Panic NilDereference, w)
      | Some R \<Rightarrow>
        (case invoke (\<lambda>s. CreateTags ec2 s [CloudID R] tags)
                (CreateTagsInput [CloudID R] tags) w of
           (Inl err, w1) \<Rightarrow> (Err (SdkError err), w1)
         | (Inr _, w1) \<Rightarrow> (Ok (), w1)))"

subsection \<open>Apply\<close>

text \<open>
  Lines 150 to 159: the two nested loops. Each match overwrites \<open>subnetID\<close>; no loop
  stops at a match.
\<close>

fun scanSubnets :: "string \<Rightarrow> Subnet list \<Rightarrow> string \<Rightarrow> string" where
  "scanSubnets name [] subnetID = subnetID"
| "scanSubnets name (sn # sns) subnetID =
     scanSubnets name sns (if Subnet.Name sn = name then Subnet.Identifier sn else subnetID)"

fun scanServerPools :: "string \<Rightarrow> ServerPool list \<Rightarrow> string \<Rightarrow> string" where
  "scanServerPools name [] subnetID = subnetID"
| "scanServerPools name (sp # sps) subnetID =
     scanServerPools name sps
       (if ServerPool.Name sp = name then scanSubnets name (Subnets sp) subnetID
        else subnetID)"

text \<open>
  Lines 174 to 183, after the association: the write to \<open>expected\<close>, the tagging through
  \<open>expected.Tag\<close>, and the new resource.
\<close>

definition Apply_tag :: "'p Ec2 \<Rightarrow> ptr \<Rightarrow> string \<Rightarrow> 'p world \<Rightarrow> resource result \<times> 'p world" where
  "Apply_tag ec2 e rtId w =
     (case e of None \<Rightarrow> (Panic NilDereference, w)
      | Some b \<Rightarrow>
        if \<not> b < length (heap w) then (Panic NilDereference, w)
        else
          let w1 = w\<lparr>heap := (heap w)[b := (heap w ! b)\<lparr>CloudID := rtId\<rparr>]\<rparr> in
          (case Tag ec2 e (RouteTable.Tags (heap w1 ! b)) w1 of
             (Panic p, w2) \<Rightarrow> (Panic p, w2)
           | (Err err, w2) \<Rightarrow> (Err err, w2)
           | (Ok _, w2) \<Rightarrow>
               let newResource = zeroRouteTable\<lparr>CloudID := CloudID (heap w2 ! b),
                                                 RouteTable.Name := RouteTable.Name (heap w2 ! b)\<rparr>
               in (Ok (RouteTablePtr (Some (length (heap w2)))),
                   w2\<lparr>heap := heap w2 @ [newResource]\<rparr>)))"

text \<open>Lines 150 to 172: the scan for the subnet's identifier and the association.\<close>

definition Apply_associate ::
  "'p Ec2 \<Rightarrow> ptr \<Rightarrow> ptr \<Rightarrow> Cluster \<Rightarrow> string \<Rightarrow> 'p world \<Rightarrow> resource result \<times> 'p world" where
  "Apply_associate ec2 r e c rtId w =
     (if ServerPools c \<noteq> [] \<and> deref (heap w) r = None then (Panic NilDereference, w)
      else
        let subnetID =
              (case deref (heap w) r of None \<Rightarrow> ''''
               | Some R \<Rightarrow> scanServerPools (RouteTable.Name R) (ServerPools c) '''')
        in if subnetID = '''' then (Err UnableToFindSubnetId, w)
           else
             (case invoke (\<lambda>s. AssociateRouteTable ec2 s subnetID rtId)
                     (AssociateRouteTableInput subnetID rtId) w of
                (Inl err, w1) \<Rightarrow> (Err (SdkError err), w1)
              | (Inr _, w1) \<Rightarrow> Apply_tag ec2 e rtId w1))"

text \<open>Lines 119 to 148: the lookup of the internet gateway and the default route.\<close>

definition Apply_route ::
  "'p Ec2 \<Rightarrow> ptr \<Rightarrow> ptr \<Rightarrow> Cluster \<Rightarrow> string \<Rightarrow> 'p world \<Rightarrow> resource result \<times> 'p world" where
  "Apply_route ec2 r e c rtId w =
     (case invoke (\<lambda>s. DescribeInternetGateways ec2 s (gatewayFilter (Cluster.Name c)))
             (DescribeInternetGatewaysInput (gatewayFilter (Cluster.Name c))) w of
        (Inl err, w1) \<Rightarrow> (Err (SdkError err), w1)
      | (Inr igs, w1) \<Rightarrow>
          let lsn = length igs in
          if lsn \<noteq> 1 then
            (case deref (heap w1) r of None \<Rightarrow> (Panic NilDereference, w1)
             | Some R \<Rightarrow>
               (case ServerPool R of None \<Rightarrow> (Panic NilDereference, w1)
                | Some sp \<Rightarrow> (Err (FoundInternetGateways lsn (ServerPool.Identifier sp)), w1)))
          else
            (case igs ! 0 of None \<Rightarrow> (Panic NilDereference, w1)
             | Some ig \<Rightarrow>
               (case InternetGatewayId ig of None \<Rightarrow> (Panic NilDereference, w1)
                | Some gwId \<Rightarrow>
                  (case invoke (\<lambda>s. CreateRoute ec2 s (S ''0.0.0.0/0'') gwId rtId)
                          (CreateRouteInput (S ''0.0.0.0/0'') gwId rtId) w1 of
                     (Inl err, w2) \<Rightarrow> (Err (SdkError err), w2)
                   | (Inr _, w2) \<Rightarrow> Apply_associate ec2 r e c rtId w2))))"

text \<open>Lines 109 to 117: the route table is created in the cluster's network.\<close>

definition Apply_create ::
  "'p Ec2 \<Rightarrow> ptr \<Rightarrow> ptr \<Rightarrow> Cluster option \<Rightarrow> 'p world \<Rightarrow> resource result \<times> 'p world" where
  "Apply_create ec2 r e applyCluster w =
     (case applyCluster of None \<Rightarrow> (Panic NilDereference, w)
      | Some c \<Rightarrow>
        (case invoke (\<lambda>s. CreateRouteTable ec2 s (Network.Identifier (Network c)))
                (CreateRouteTableInput (Network.Identifier (Network c))) w of
           (Inl err, w1) \<Rightarrow> (Err (SdkError err), w1)
         | (Inr rtOutput, w1) \<Rightarrow>
             (case rtOutput of None \<Rightarrow> (Panic NilDereference, w1)
              | Some rt \<Rightarrow>
                (case RouteTableId rt of None \<Rightarrow> (Panic NilDereference, w1)
                 | Some rtId \<Rightarrow> Apply_route ec2 r e c rtId w1))))"

text \<open>
  \<open>compare.IsEqual\<close> is declared outside routetable.go: \<open>Apply\<close> takes it as a parameter, a
  function of the store and the two pointers that writes nothing and calls no provider.
\<close>

type_synonym comparator = "RouteTable list \<Rightarrow> ptr \<Rightarrow> ptr \<Rightarrow> bool result"

definition Apply ::
  "'p Ec2 \<Rightarrow> comparator \<Rightarrow> ptr \<Rightarrow> resource \<Rightarrow> resource \<Rightarrow> Cluster option \<Rightarrow> 'p world
     \<Rightarrow> resource result \<times> 'p world" where
  "Apply ec2 isEqualFn r actual expected applyCluster w =
     (case expected of
        RouteTablePtr e \<Rightarrow>
          (case actual of
             RouteTablePtr a \<Rightarrow>
               (case isEqualFn (heap w) a e of
                  Panic p \<Rightarrow> (Panic p, w)
                | Err err \<Rightarrow> (Err err, w)
                | Ok isEqual \<Rightarrow>
                    if isEqual then (Ok (RouteTablePtr e), w)
                    else Apply_create ec2 r e applyCluster w)
           | _ \<Rightarrow> (Panic TypeAssertion, w))
      | _ \<Rightarrow> (Panic TypeAssertion, w))"

text \<open>
  Modelled from the spec: the body of \<open>compare.IsEqual\<close> is missing. The spec's Comparator:
  two snapshots are equal when their Name, their CloudID and their Tags (same keys, same
  values) agree; an input that is no snapshot is an error.
\<close>

definition IsEqual :: comparator where
  "IsEqual h a e =
     (case deref h a of None \<Rightarrow> Err (CompareError ''malformed input'')
      | Some A \<Rightarrow>
        (case deref h e of None \<Rightarrow> Err (CompareError ''malformed input'')
         | Some E \<Rightarrow>
             Ok (RouteTable.Name A = RouteTable.Name E \<and> CloudID A = CloudID E
                 \<and> RouteTable.Tags A = RouteTable.Tags E)))"

subsection \<open>Delete\<close>

definition Delete ::
  "'p Ec2 \<Rightarrow> ptr \<Rightarrow> resource \<Rightarrow> Cluster option \<Rightarrow> 'p world \<Rightarrow> resource result \<times> 'p world" where
  "Delete ec2 r actual known w =
     (case actual of
        RouteTablePtr d \<Rightarrow>
          (case deref (heap w) d of None \<Rightarrow> (Panic NilDereference, w)
           | Some deleteResource \<Rightarrow>
             if CloudID deleteResource = '''' then
               (Err (UnableToDeleteWithoutID (RouteTable.Name deleteResource)), w)
             else
               (case deref (heap w) r of None \<Rightarrow> (Panic NilDereference, w)
                | Some R \<Rightarrow>
                  (case ClusterSubnet R of None \<Rightarrow> (Panic NilDereference, w)
                   | Some sn \<Rightarrow>
                     (case invoke (\<lambda>s. DescribeRouteTables ec2 s (pairFilter (Subnet.Name sn)))
                             (DescribeRouteTablesInput (pairFilter (Subnet.Name sn))) w of
                        (Inl err, w1) \<Rightarrow> (Err (SdkError err), w1)
                      | (Inr rts, w1) \<Rightarrow>
                          let llc = length rts in
                          if llc \<noteq> 1 then
                            (Err (FoundRouteTables llc (Subnet.Identifier sn)), w1)
                          else
                            (case rts ! 0 of None \<Rightarrow> (Panic NilDereference, w1)
                             | Some rt \<Rightarrow>
                               (case Associations rt of
                                  [] \<Rightarrow> (Panic IndexOutOfRange, w1)
                                | None # _ \<Rightarrow> (Panic NilDereference, w1)
                                | Some assoc # _ \<Rightarrow>
                                    (case invoke
                                            (\<lambda>s. DisassociateRouteTable ec2 s
                                                   (RouteTableAssociationId assoc))
                                            (DisassociateRouteTableInput
                                               (RouteTableAssociationId assoc)) w1 of
                                       (Inl err, w2) \<Rightarrow> (Err (SdkError err), w2)
                                     | (Inr _, w2) \<Rightarrow>
                                         (case invoke
                                                 (\<lambda>s. DeleteRouteTable ec2 s (RouteTableId rt))
                                                 (DeleteRouteTableInput (RouteTableId rt)) w2 of
                                            (Inl err, w3) \<Rightarrow> (Err (SdkError err), w3)
                                          | (Inr _, w3) \<Rightarrow>
                                              let newResource =
                                                    zeroRouteTable\<lparr>
                                                      RouteTable.Name :=
                                                        RouteTable.Name deleteResource,
                                                      RouteTable.Tags :=
                                                        RouteTable.Tags deleteResource\<rparr>
                                              in (Ok (RouteTablePtr (Some (length (heap w3)))),
                                                  w3\<lparr>heap := heap w3 @ [newResource]\<rparr>)))))))))
      | _ \<Rightarrow> (Panic TypeAssertion, w))"

subsection \<open>Render\<close>

definition Render ::
  "ptr \<Rightarrow> resource \<Rightarrow> Cluster option \<Rightarrow> 'p world \<Rightarrow> Cluster option result \<times> 'p world" where
  "Render r renderResource renderCluster w = (Ok renderCluster, w)"

subsection \<open>Example clusters, resources and providers\<close>

text \<open>
  Cluster \<open>clusterA\<close> names its subnet after its server pool, and the resource \<open>rtA\<close> has
  that name too. Cluster \<open>clusterB\<close> has a pool \<open>pool\<close> with a subnet \<open>sn\<close>, and the resource
  \<open>rtB\<close> is named \<open>rt\<close>.
\<close>

definition subnetA :: Subnet where
  "subnetA = \<lparr>Subnet.Name = ''pool-a'', Identifier = ''subnet-1''\<rparr>"

definition poolA :: ServerPool where
  "poolA = \<lparr>ServerPool.Name = ''pool-a'', Identifier = ''sp-1'', Subnets = [subnetA]\<rparr>"

definition clusterA :: Cluster where
  "clusterA = \<lparr>Cluster.Name = ''k8s'', Network = \<lparr>Network.Identifier = ''vpc-1''\<rparr>,
               ServerPools = [poolA]\<rparr>"

definition rtA :: RouteTable where
  "rtA = zeroRouteTable\<lparr>RouteTable.Name := ''pool-a'', ClusterSubnet := Some subnetA,
                        ServerPool := Some poolA\<rparr>"

definition subnetB :: Subnet where
  "subnetB = \<lparr>Subnet.Name = ''sn'', Identifier = ''subnet-2''\<rparr>"

definition poolB :: ServerPool where
  "poolB = \<lparr>ServerPool.Name = ''pool'', Identifier = ''sp-2'', Subnets = [subnetB]\<rparr>"

definition clusterB :: Cluster where
  "clusterB = \<lparr>Cluster.Name = ''k8s'', Network = \<lparr>Network.Identifier = ''vpc-1''\<rparr>,
               ServerPools = [poolB]\<rparr>"

definition rtB :: RouteTable where
  "rtB = zeroRouteTable\<lparr>RouteTable.Name := ''rt'', ClusterSubnet := Some subnetB,
                        ServerPool := Some poolB\<rparr>"

text \<open>A snapshot as \<open>Actual\<close> makes it before the subnet exists, and two desired ones.\<close>

definition emptyActual :: RouteTable where
  "emptyActual = zeroRouteTable\<lparr>RouteTable.Name := ''pool-a''\<rparr>"

definition expectedA :: RouteTable where
  "expectedA = zeroRouteTable\<lparr>
     RouteTable.Tags :=
       fmap_of_list [(''Name'', ''pool-a''), (''KubernetesCluster'', ''k8s''),
                     (''kubicorn-route-table-subnet-pair'', ''pool-a'')],
     RouteTable.Name := ''pool-a'', CloudID := ''pool-a''\<rparr>"

definition observedB :: RouteTable where
  "observedB = zeroRouteTable\<lparr>
     RouteTable.Tags := fmap_of_list [(''kubicorn-route-table-subnet-pair'', ''sn'')],
     RouteTable.Name := ''sn'', CloudID := ''sn''\<rparr>"

text \<open>
  The provider \<open>ec2_ok\<close> answers every call with success; its state counts the calls. The
  others differ from it in the answer to describe-route-tables: no match, or one match
  with no association.
\<close>

definition remoteTable :: ec2_RouteTable where
  "remoteTable =
     \<lparr>RouteTableId = Some ''rtb-1'',
      Tags = [Some \<lparr>Key = Some ''Name'', Value = Some ''rt''\<rparr>,
              Some \<lparr>Key = Some ''kubicorn-route-table-subnet-pair'', Value = Some ''sn''\<rparr>],
      Associations = [Some \<lparr>RouteTableAssociationId = Some ''rtbassoc-1''\<rparr>]\<rparr>"

definition ec2_ok :: "nat Ec2" where
  "ec2_ok =
     \<lparr>DescribeRouteTables = (\<lambda>s fs. (Inr [Some remoteTable], Suc s)),
      CreateRouteTable =
        (\<lambda>s vpc. (Inr (Some \<lparr>RouteTableId = Some ''rtb-1'', Tags = [], Associations = []\<rparr>),
                   Suc s)),
      DescribeInternetGateways =
        (\<lambda>s fs. (Inr [Some \<lparr>InternetGatewayId = Some ''igw-1''\<rparr>], Suc s)),
      CreateRoute = (\<lambda>s dst gw rt. (Inr (), Suc s)),
      AssociateRouteTable = (\<lambda>s sn rt. (Inr (), Suc s)),
      DisassociateRouteTable = (\<lambda>s a. (Inr (), Suc s)),
      DeleteRouteTable = (\<lambda>s rt. (Inr (), Suc s)),
      CreateTags = (\<lambda>s rs ts. (Inr (), Suc s))\<rparr>"

definition ec2_none :: "nat Ec2" where
  "ec2_none = ec2_ok\<lparr>DescribeRouteTables := (\<lambda>s fs. (Inr [], Suc s))\<rparr>"

definition ec2_noassoc :: "nat Ec2" where
  "ec2_noassoc =
     ec2_ok\<lparr>DescribeRouteTables :=
              (\<lambda>s fs. (Inr [Some (remoteTable\<lparr>Associations := []\<rparr>)], Suc s))\<rparr>"

definition worldA :: "nat world" where
  "worldA = \<lparr>heap = [rtA, emptyActual, expectedA], sdk = 0, calls = []\<rparr>"

definition worldB :: "nat world" where
  "worldB = \<lparr>heap = [rtB], sdk = 0, calls = []\<rparr>"

definition worldB' :: "nat world" where
  "worldB' = \<lparr>heap = [rtB, observedB], sdk = 0, calls = []\<rparr>"

definition worldE :: "nat world" where
  "worldE = \<lparr>heap = [rtA, expectedA, expectedA], sdk = 0, calls = []\<rparr>"

definition worldC :: "nat world" where
  "worldC = \<lparr>heap = [rtB, emptyActual, expectedA], sdk = 0, calls = []\<rparr>"

text \<open>
  Cluster \<open>clusterQ\<close> has one pool \<open>p\<close> with the subnets \<open>a\<close> and \<open>p\<close>. The resource \<open>rtQ\<close>
  is the route table of subnet \<open>a\<close> and bears the pool's name; \<open>actualQ\<close> and \<open>expectedQ\<close>
  are its snapshots before the table exists.
\<close>

definition subnetQa :: Subnet where
  "subnetQa = \<lparr>Subnet.Name = ''a'', Identifier = ''subnet-a''\<rparr>"

definition subnetQp :: Subnet where
  "subnetQp = \<lparr>Subnet.Name = ''p'', Identifier = ''subnet-p''\<rparr>"

definition poolQ :: ServerPool where
  "poolQ = \<lparr>ServerPool.Name = ''p'', Identifier = ''sp-3'', Subnets = [subnetQa, subnetQp]\<rparr>"

definition clusterQ :: Cluster where
  "clusterQ = \<lparr>Cluster.Name = ''k8s'', Network = \<lparr>Network.Identifier = ''vpc-1''\<rparr>,
               ServerPools = [poolQ]\<rparr>"

definition rtQ :: RouteTable where
  "rtQ = zeroRouteTable\<lparr>RouteTable.Name := ''p'', ClusterSubnet := Some subnetQa,
                        ServerPool := Some poolQ\<rparr>"

definition actualQ :: RouteTable where
  "actualQ = zeroRouteTable\<lparr>RouteTable.Name := ''p''\<rparr>"

definition expectedQ :: RouteTable where
  "expectedQ = zeroRouteTable\<lparr>
     RouteTable.Tags :=
       fmap_of_list [(''Name'', ''p''), (''KubernetesCluster'', ''k8s''),
                     (''kubicorn-route-table-subnet-pair'', ''a'')],
     RouteTable.Name := ''p'', CloudID := ''p''\<rparr>"

definition worldQ :: "nat world" where
  "worldQ = \<lparr>heap = [rtQ, actualQ, expectedQ], sdk = 0, calls = []\<rparr>"

text \<open>
  The provider \<open>ec2_tagged\<close> finds the route table of \<open>rtA\<close> with the three tags that
  \<open>Apply\<close> sends for it. The resource \<open>rtF\<close> is \<open>rtA\<close> with a reference to its subnet taken
  before the subnet had an Identifier, and \<open>pass1\<close> is the world after one pass (\<open>Actual\<close>,
  \<open>Expected\<close>, \<open>Apply\<close>) on it.
\<close>

definition remoteTableA :: ec2_RouteTable where
  "remoteTableA =
     \<lparr>RouteTableId = Some ''rtb-1'',
      Tags = [Some \<lparr>Key = Some ''kubicorn-route-table-subnet-pair'', Value = Some ''pool-a''\<rparr>,
              Some \<lparr>Key = Some ''KubernetesCluster'', Value = Some ''k8s''\<rparr>,
              Some \<lparr>Key = Some ''Name'', Value = Some ''pool-a''\<rparr>],
      Associations = [Some \<lparr>RouteTableAssociationId = Some ''rtbassoc-1''\<rparr>]\<rparr>"

definition ec2_tagged :: "nat Ec2" where
  "ec2_tagged = ec2_ok\<lparr>DescribeRouteTables := (\<lambda>s fs. (Inr [Some remoteTableA], Suc s))\<rparr>"

definition worldA0 :: "nat world" where
  "worldA0 = \<lparr>heap = [rtA], sdk = 0, calls = []\<rparr>"

definition rtF :: RouteTable where
  "rtF = rtA\<lparr>ClusterSubnet := Some (subnetA\<lparr>Subnet.Identifier := ''''\<rparr>)\<rparr>"

definition worldF :: "nat world" where
  "worldF = \<lparr>heap = [rtF], sdk = 0, calls = []\<rparr>"

definition pass1 :: "nat world" where
  "pass1 =
     snd (Apply ec2_ok IsEqual (Some 0) (RouteTablePtr (Some 1)) (RouteTablePtr (Some 2))
            (Some clusterA)
            (snd (Expected (Some 0) (Some clusterA)
                    (snd (Actual ec2_ok (Some 0) (Some clusterA) worldF)))))"

subsection \<open>Notions used in the statements\<close>




section \<open>Properties\<close>

subsection \<open>Auxiliary facts\<close>

lemma invoke_eq:
  "invoke f rq w = (fst (f (sdk w)), w\<lparr>sdk := snd (f (sdk w)), calls := calls w @ [rq]\<rparr>)"
  by (simp add: invoke_def split: prod.splits)

lemmas ex_defs =
  worldA_def worldA0_def worldB_def worldB'_def worldC_def worldE_def worldF_def
  worldQ_def rtF_def rtQ_def actualQ_def expectedQ_def subnetQa_def subnetQp_def poolQ_def
  clusterQ_def remoteTableA_def ec2_tagged_def rtA_def rtB_def emptyActual_def expectedA_def
  observedB_def subnetA_def poolA_def clusterA_def subnetB_def poolB_def clusterB_def
  zeroRouteTable_def remoteTable_def ec2_ok_def ec2_none_def ec2_noassoc_def

lemma Actual_queries:
  assumes "deref (heap w) r = Some R" and "CachedActual R = NilResource"
    and "ClusterSubnet R = Some sn" and "Subnet.Identifier sn \<noteq> ''''"
  shows "calls (snd (Actual ec2 r known w))
           = calls w @ [DescribeRouteTablesInput (pairFilter (Subnet.Name sn))]"
  using assms
  by (auto simp: Actual_def deref_def invoke_eq cacheActual_def Let_def
           split: option.splits sum.splits result.splits if_splits)

lemma Delete_Ok:
  assumes "Delete ec2 r (RouteTablePtr d) known w = (Ok res, w')"
    and "deref (heap w) d = Some A"
  shows "res = RouteTablePtr (Some (length (heap w))) \<and>
         heap w' = heap w @ [zeroRouteTable\<lparr>RouteTable.Name := RouteTable.Name A,
                                            RouteTable.Tags := RouteTable.Tags A\<rparr>]"
  using assms
  by (auto simp: Delete_def invoke_eq Let_def
           split: option.splits prod.splits sum.splits list.splits if_splits)

subsection \<open>Delete\<close>

text \<open>
  Claim C7. When the CloudID of the actual snapshot is the empty string, \<open>Delete\<close> returns
  the error "Unable to delete routetable resource without ID" (the missing-identifier
  error) and the world is unchanged: no request is sent to the provider.
\<close>

theorem Delete_without_CloudID:
  "deref (heap w) d = Some A \<Longrightarrow> CloudID A = '''' \<Longrightarrow>
   Delete ec2 r (RouteTablePtr d) known w
     = (Err (UnableToDeleteWithoutID (RouteTable.Name A)), w)"
  by (simp add: Delete_def)

theorem Delete_without_CloudID_witness:
  "deref (heap worldA) (Some 1) = Some emptyActual \<and> CloudID emptyActual = '''' \<and>
   Delete ec2_ok (Some 0) (RouteTablePtr (Some 1)) (Some clusterA) worldA
     = (Err (UnableToDeleteWithoutID ''pool-a''), worldA)"
proof -
  have d: "deref (heap worldA) (Some 1) = Some emptyActual"
    by (simp add: deref_def worldA_def)
  have c: "CloudID emptyActual = ''''"
    by (simp add: emptyActual_def zeroRouteTable_def)
  have n: "RouteTable.Name emptyActual = ''pool-a''"
    by (simp add: emptyActual_def zeroRouteTable_def)
  from Delete_without_CloudID [OF d c, of ec2_ok "Some 0" "Some clusterA"] d c n
  show ?thesis by simp
qed


text \<open>
  Claim C8. When \<open>Delete\<close> succeeds on an actual snapshot with a non-empty CloudID, it
  returns a pointer to a new object of the store whose Name and Tags are those of the
  actual snapshot and whose CloudID is the empty string.
\<close>

theorem Delete_preserves_Name_Tags:
  assumes "Delete ec2 r (RouteTablePtr d) known w = (Ok res, w')"
    and "deref (heap w) d = Some A"
    and "CloudID A \<noteq> ''''"
  shows "res = RouteTablePtr (Some (length (heap w))) \<and>
         length (heap w') = Suc (length (heap w)) \<and>
         RouteTable.Name (heap w' ! length (heap w)) = RouteTable.Name A \<and>
         RouteTable.Tags (heap w' ! length (heap w)) = RouteTable.Tags A \<and>
         CloudID (heap w' ! length (heap w)) = ''''"
  using Delete_Ok [OF assms(1,2)] by (simp add: zeroRouteTable_def)

theorem Delete_preserves_Name_Tags_witness:
  "fst (Delete ec2_ok (Some 0) (RouteTablePtr (Some 1)) (Some clusterB) worldB')
     = Ok (RouteTablePtr (Some 2)) \<and>
   deref (heap worldB') (Some 1) = Some observedB \<and>
   CloudID observedB = ''sn'' \<and>
   RouteTable.Name
     (heap (snd (Delete ec2_ok (Some 0) (RouteTablePtr (Some 1)) (Some clusterB) worldB')) ! 2)
     = ''sn'' \<and>
   RouteTable.Tags
     (heap (snd (Delete ec2_ok (Some 0) (RouteTablePtr (Some 1)) (Some clusterB) worldB')) ! 2)
     = fmap_of_list [(''kubicorn-route-table-subnet-pair'', ''sn'')] \<and>
   CloudID
     (heap (snd (Delete ec2_ok (Some 0) (RouteTablePtr (Some 1)) (Some clusterB) worldB')) ! 2)
     = ''''"
proof -
  let ?run = "Delete ec2_ok (Some 0) (RouteTablePtr (Some 1)) (Some clusterB) worldB'"
  have r: "fst ?run = Ok (RouteTablePtr (Some 2))"
    by (simp add: Delete_def invoke_eq deref_def ex_defs)
  then have run: "?run = (Ok (RouteTablePtr (Some 2)), snd ?run)"
    by (simp add: prod_eq_iff)
  have d: "deref (heap worldB') (Some 1) = Some observedB"
    by (simp add: deref_def worldB'_def)
  have c: "CloudID observedB = ''sn''"
    by (simp add: observedB_def zeroRouteTable_def)
  have c': "CloudID observedB \<noteq> ''''"
    by (simp add: c)
  have n: "RouteTable.Name observedB = ''sn''"
    and t: "RouteTable.Tags observedB
              = fmap_of_list [(''kubicorn-route-table-subnet-pair'', ''sn'')]"
    and l: "length (heap worldB') = 2"
    by (simp_all add: observedB_def zeroRouteTable_def worldB'_def)
  from Delete_preserves_Name_Tags [OF run d c'] r d c n t l
  show ?thesis by simp
qed

text \<open>
  Claim C9 says that no operation ends in a panic, also when the route table that
  \<open>Delete\<close> looks up has no recorded association. On such a response \<open>Delete\<close> reads
  \<open>rt.Associations[0]\<close> of an empty slice (line 210): with the provider \<open>ec2_noassoc\<close>,
  whose one matching route table has no association, the run ends in the panic "index out
  of range" after the describe request, with neither a value nor an error.
\<close>

theorem Delete_panics_without_association:
  "Delete ec2_noassoc (Some 0) (RouteTablePtr (Some 1)) (Some clusterB) worldB'
     = (Panic IndexOutOfRange,
        worldB'\<lparr>sdk := 1, calls := [DescribeRouteTablesInput (pairFilter ''sn'')]\<rparr>)"
  by (simp add: Delete_def invoke_eq deref_def ex_defs)

subsection \<open>Actual\<close>

text \<open>
  Claim C6. Let the receiver have no cached actual snapshot and a subnet with a non-empty
  Identifier. If the provider answers the describe-route-tables request with a number of
  route tables other than one, then \<open>Actual\<close> returns the error "Found [n] Route Tables
  for VPC ID [id]" (the cardinality fault); the store is unchanged, so the receiver's cache
  is still unset; and a later \<open>Actual\<close> on that world, with any provider and cluster,
  sends the describe request again.
\<close>

theorem Actual_cardinality:
  assumes "deref (heap w) r = Some R" and "CachedActual R = NilResource"
    and "ClusterSubnet R = Some sn" and "Subnet.Identifier sn \<noteq> ''''"
    and "DescribeRouteTables ec2 (sdk w) (pairFilter (Subnet.Name sn)) = (Inr rts, s)"
    and "length rts \<noteq> 1"
  shows "Actual ec2 r known w
           = (Err (FoundRouteTables (length rts) (Subnet.Identifier sn)),
              w\<lparr>sdk := s,
                calls := calls w @ [DescribeRouteTablesInput (pairFilter (Subnet.Name sn))]\<rparr>)
         \<and> deref (heap (snd (Actual ec2 r known w))) r = Some R
         \<and> calls (snd (Actual ec2' r known' (snd (Actual ec2 r known w))))
             = calls w @ [DescribeRouteTablesInput (pairFilter (Subnet.Name sn)),
                          DescribeRouteTablesInput (pairFilter (Subnet.Name sn))]"
proof -
  let ?q = "DescribeRouteTablesInput (pairFilter (Subnet.Name sn))"
  let ?w' = "w\<lparr>sdk := s, calls := calls w @ [?q]\<rparr>"
  have run: "Actual ec2 r known w
               = (Err (FoundRouteTables (length rts) (Subnet.Identifier sn)), ?w')"
    using assms
    by (auto simp: Actual_def deref_def invoke_eq Let_def split: option.splits if_splits)
  have d: "deref (heap ?w') r = Some R"
    using assms(1) by simp
  have "calls (snd (Actual ec2' r known' ?w')) = calls ?w' @ [?q]"
    by (rule Actual_queries [OF d assms(2,3,4)])
  with run d show ?thesis by simp
qed

theorem Actual_cardinality_witness:
  "deref (heap worldB) (Some 0) = Some rtB \<and> CachedActual rtB = NilResource \<and>
   ClusterSubnet rtB = Some subnetB \<and> Subnet.Identifier subnetB = ''subnet-2'' \<and>
   DescribeRouteTables ec2_none (sdk worldB) (pairFilter ''sn'') = (Inr [], 1) \<and>
   Actual ec2_none (Some 0) (Some clusterB) worldB
     = (Err (FoundRouteTables 0 ''subnet-2''),
        worldB\<lparr>sdk := 1, calls := [DescribeRouteTablesInput (pairFilter ''sn'')]\<rparr>) \<and>
   calls (snd (Actual ec2_ok (Some 0) (Some clusterB)
                 (snd (Actual ec2_none (Some 0) (Some clusterB) worldB))))
     = [DescribeRouteTablesInput (pairFilter ''sn''),
        DescribeRouteTablesInput (pairFilter ''sn'')]"
proof -
  have d: "deref (heap worldB) (Some 0) = Some rtB"
    by (simp add: deref_def worldB_def)
  have c: "CachedActual rtB = NilResource" and sn: "ClusterSubnet rtB = Some subnetB"
    by (simp_all add: rtB_def zeroRouteTable_def)
  have i: "Subnet.Identifier subnetB = ''subnet-2''" and n: "Subnet.Name subnetB = ''sn''"
    by (simp_all add: subnetB_def)
  have i': "Subnet.Identifier subnetB \<noteq> ''''"
    by (simp add: i)
  have q: "DescribeRouteTables ec2_none (sdk worldB) (pairFilter (Subnet.Name subnetB))
             = (Inr [], 1)"
    by (simp add: ec2_none_def ec2_ok_def worldB_def)
  have l: "length ([] :: ec2_RouteTable option list) \<noteq> 1"
    by simp
  have e: "calls worldB = []"
    by (simp add: worldB_def)
  note T = Actual_cardinality [OF d c sn i' q l, of "Some clusterB" ec2_ok "Some clusterB"]
  from T have run: "Actual ec2_none (Some 0) (Some clusterB) worldB
     = (Err (FoundRouteTables 0 ''subnet-2''),
        worldB\<lparr>sdk := 1, calls := [DescribeRouteTablesInput (pairFilter ''sn'')]\<rparr>)"
    by (simp add: i n e)
  from T have again: "calls (snd (Actual ec2_ok (Some 0) (Some clusterB)
                 (snd (Actual ec2_none (Some 0) (Some clusterB) worldB))))
     = [DescribeRouteTablesInput (pairFilter ''sn''),
        DescribeRouteTablesInput (pairFilter ''sn'')]"
    unfolding n e by (elim conjE) simp
  from q have q': "DescribeRouteTables ec2_none (sdk worldB) (pairFilter ''sn'') = (Inr [], 1)"
    by (simp add: n)
  show ?thesis
    by (intro conjI d c sn i q' run again)
qed


subsection \<open>Expected\<close>

lemma Expected_fresh:
  assumes "a < length (heap w)" and "CachedExpected (heap w ! a) = NilResource"
    and "ClusterSubnet (heap w ! a) = Some sn" and "ServerPool (heap w ! a) = Some sp"
  shows "Expected (Some a) (Some k) w
           = (Ok (RouteTablePtr (Some (length (heap w)))),
              w\<lparr>heap := (heap w @
                   [zeroRouteTable\<lparr>
                      RouteTable.Tags :=
                        fmap_of_list
                          [(''Name'', RouteTable.Name (heap w ! a)),
                           (''KubernetesCluster'', Cluster.Name k),
                           (''kubicorn-route-table-subnet-pair'', Subnet.Name sn)],
                      RouteTable.Name := ServerPool.Name sp,
                      TagResource := TagResource (heap w ! a),
                      CloudID := ServerPool.Name sp\<rparr>])
                 [a := (heap w ! a)\<lparr>CachedExpected := RouteTablePtr (Some (length (heap w)))\<rparr>]\<rparr>)"
  using assms by (simp add: Expected_def cacheExpected_def Let_def nth_append)

lemma deref_Some: "deref h p = Some R \<longleftrightarrow> (\<exists>a. p = Some a \<and> a < length h \<and> h ! a = R)"
  by (auto simp: deref_def split: option.splits)

text \<open>
  Claim C2 gives the tag \<open>Name\<close> of the expected snapshot as the server pool's name. Line
  86 writes the receiver's own Name there; the resource \<open>rtB\<close> is named \<open>rt\<close> and its pool
  is named \<open>pool\<close>, and the snapshot's tag \<open>Name\<close> is \<open>rt\<close>. The claim also speaks of
  every call, while a cached snapshot is returned as it is.

  Claim C2 as amended. When the receiver has no cached expected snapshot and its subnet
  and server pool are set, \<open>Expected\<close> on a cluster sends no request to the provider and
  returns a new snapshot whose Tags are exactly \<open>Name\<close>: the receiver's Name,
  \<open>KubernetesCluster\<close>: the cluster's Name, \<open>kubicorn-route-table-subnet-pair\<close>: the
  subnet's Name, and whose Name and CloudID are the server pool's Name.
\<close>

theorem Expected_snapshot:
  assumes "deref (heap w) r = Some R" and "CachedExpected R = NilResource"
    and "ClusterSubnet R = Some sn" and "ServerPool R = Some sp"
    and "Expected r (Some k) w = (res, w')"
  shows "res = Ok (RouteTablePtr (Some (length (heap w)))) \<and>
         calls w' = calls w \<and> sdk w' = sdk w \<and>
         length (heap w') = Suc (length (heap w)) \<and>
         RouteTable.Tags (heap w' ! length (heap w))
           = fmap_of_list [(''Name'', RouteTable.Name R),
                           (''KubernetesCluster'', Cluster.Name k),
                           (''kubicorn-route-table-subnet-pair'', Subnet.Name sn)] \<and>
         RouteTable.Name (heap w' ! length (heap w)) = ServerPool.Name sp \<and>
         CloudID (heap w' ! length (heap w)) = ServerPool.Name sp"
proof -
  from assms(1) obtain a where a: "r = Some a" "a < length (heap w)" "heap w ! a = R"
    by (auto simp: deref_Some)
  from Expected_fresh [of a w sn sp k] a assms(2-5)
  show ?thesis by (auto simp: nth_list_update nth_append zeroRouteTable_def)
qed

theorem Expected_snapshot_witness:
  "deref (heap worldB) (Some 0) = Some rtB \<and> CachedExpected rtB = NilResource \<and>
   ClusterSubnet rtB = Some subnetB \<and> ServerPool rtB = Some poolB \<and>
   fst (Expected (Some 0) (Some clusterB) worldB) = Ok (RouteTablePtr (Some 1)) \<and>
   calls (snd (Expected (Some 0) (Some clusterB) worldB)) = [] \<and>
   RouteTable.Tags (heap (snd (Expected (Some 0) (Some clusterB) worldB)) ! 1)
     = fmap_of_list [(''Name'', ''rt''), (''KubernetesCluster'', ''k8s''),
                     (''kubicorn-route-table-subnet-pair'', ''sn'')] \<and>
   RouteTable.Name (heap (snd (Expected (Some 0) (Some clusterB) worldB)) ! 1) = ''pool'' \<and>
   CloudID (heap (snd (Expected (Some 0) (Some clusterB) worldB)) ! 1) = ''pool''"
proof -
  have d: "deref (heap worldB) (Some 0) = Some rtB"
    by (simp add: deref_def worldB_def)
  have c: "CachedExpected rtB = NilResource" and sn: "ClusterSubnet rtB = Some subnetB"
    and sp: "ServerPool rtB = Some poolB" and n: "RouteTable.Name rtB = ''rt''"
    by (simp_all add: rtB_def zeroRouteTable_def)
  have v: "Subnet.Name subnetB = ''sn''" "ServerPool.Name poolB = ''pool''"
    "Cluster.Name clusterB = ''k8s''" "length (heap worldB) = 1" "calls worldB = []"
    by (simp_all add: subnetB_def poolB_def clusterB_def worldB_def)
  note T = Expected_snapshot [OF d c sn sp, of clusterB
             "fst (Expected (Some 0) (Some clusterB) worldB)"
             "snd (Expected (Some 0) (Some clusterB) worldB)"]
  from T d c sn sp show ?thesis
    unfolding n v by simp
qed

theorem Expected_Name_tag_counterexample:
  "fst (Expected (Some 0) (Some clusterB) worldB) = Ok (RouteTablePtr (Some 1)) \<and>
   ServerPool rtB = Some poolB \<and> ClusterSubnet rtB = Some subnetB \<and>
   fmlookup (RouteTable.Tags (heap (snd (Expected (Some 0) (Some clusterB) worldB)) ! 1)) ''Name''
     = Some ''rt'' \<and>
   fmlookup (fmap_of_list [(''Name'', ServerPool.Name poolB),
                           (''KubernetesCluster'', Cluster.Name clusterB),
                           (''kubicorn-route-table-subnet-pair'', Subnet.Name subnetB)]) ''Name''
     = Some ''pool'' \<and>
   RouteTable.Tags (heap (snd (Expected (Some 0) (Some clusterB) worldB)) ! 1)
     \<noteq> fmap_of_list [(''Name'', ServerPool.Name poolB),
                      (''KubernetesCluster'', Cluster.Name clusterB),
                      (''kubicorn-route-table-subnet-pair'', Subnet.Name subnetB)]"
proof -
  let ?E = "heap (snd (Expected (Some 0) (Some clusterB) worldB)) ! 1"
  let ?claimed = "fmap_of_list [(''Name'', ServerPool.Name poolB),
                           (''KubernetesCluster'', Cluster.Name clusterB),
                           (''kubicorn-route-table-subnet-pair'', Subnet.Name subnetB)]"
  have r: "fst (Expected (Some 0) (Some clusterB) worldB) = Ok (RouteTablePtr (Some 1))"
    by (simp add: Expected_def cacheExpected_def ex_defs)
  have p: "ServerPool rtB = Some poolB" "ClusterSubnet rtB = Some subnetB"
    by (simp_all add: rtB_def zeroRouteTable_def)
  have a: "fmlookup (RouteTable.Tags ?E) ''Name'' = Some ''rt''"
    by (simp add: Expected_def cacheExpected_def ex_defs fmlookup_of_list)
  have b: "fmlookup ?claimed ''Name'' = Some ''pool''"
    by (simp add: poolB_def fmlookup_of_list)
  from a b have "RouteTable.Tags ?E \<noteq> ?claimed"
    by auto
  with r p a b show ?thesis by blast
qed


subsection \<open>Apply: the scan for the subnet\<close>


lemma Tag_calls: "\<exists>cs. calls (snd (Tag ec2 p tags w)) = calls w @ cs"
  by (simp add: Tag_def invoke_eq split: option.splits sum.splits)

lemma Apply_tag_calls: "\<exists>cs. calls (snd (Apply_tag ec2 e rtId w)) = calls w @ cs"
proof (cases e)
  case None
  then show ?thesis by (simp add: Apply_tag_def)
next
  case (Some b)
  show ?thesis
  proof (cases "b < length (heap w)")
    case False
    with Some show ?thesis by (simp add: Apply_tag_def)
  next
    case True
    let ?w1 = "w\<lparr>heap := (heap w)[b := (heap w ! b)\<lparr>CloudID := rtId\<rparr>]\<rparr>"
    let ?t = "Tag ec2 (Some b) (RouteTable.Tags (heap ?w1 ! b)) ?w1"
    from Tag_calls [of ec2 "Some b" "RouteTable.Tags (heap ?w1 ! b)" ?w1]
    show ?thesis
      using Some True
      by (cases ?t; cases "fst ?t") (auto simp: Apply_tag_def Let_def)
  qed
qed

lemmas Apply_defs =
  Apply_def Apply_create_def Apply_route_def Apply_associate_def Apply_tag_def Tag_def
  IsEqual_def deref_def invoke_eq S_def Let_def

text \<open>
  Claim C3 says that \<open>Apply\<close> finds the identifier of the target subnet by a name match
  against the supplied subnet reference, and fails with the missing-prerequisite error
  exactly when no such match has an identifier. The file names the subnet by
  \<open>r.ClusterSubnet.Name\<close> everywhere else (lines 52, 88 and 195) and the comment of line
  164 speaks of "this particular subnet", but the loops of lines 151 to 159 compare the
  names of the pools and of the subnets with \<open>r.Name\<close>. Two runs of the code show it.
  The resource \<open>rtQ\<close> is the route table of subnet \<open>a\<close> of pool \<open>p\<close> and bears the name \<open>p\<close>:
  \<open>Apply\<close> associates the new table with \<open>subnet-p\<close>, the identifier of the other subnet of
  the pool, and tags it for subnet \<open>a\<close>. The resource \<open>rtB\<close>, named \<open>rt\<close>, has the subnet \<open>sn\<close>,
  which the cluster holds with its identifier: \<open>Apply\<close> returns "Unable to find subnet
  id" after its three first requests.
\<close>

theorem Apply_associates_by_receiver_name:
  "ClusterSubnet rtQ = Some subnetQa \<and>
   subnetQa \<in> set (Subnets poolQ) \<and> poolQ \<in> set (ServerPools clusterQ) \<and>
   Subnet.Identifier subnetQa = ''subnet-a'' \<and>
   fst (Apply ec2_ok IsEqual (Some 0) (RouteTablePtr (Some 1)) (RouteTablePtr (Some 2))
          (Some clusterQ) worldQ) = Ok (RouteTablePtr (Some 3)) \<and>
   calls (snd (Apply ec2_ok IsEqual (Some 0) (RouteTablePtr (Some 1)) (RouteTablePtr (Some 2))
                 (Some clusterQ) worldQ))
     = [CreateRouteTableInput ''vpc-1'',
        DescribeInternetGatewaysInput (gatewayFilter ''k8s''),
        CreateRouteInput ''0.0.0.0/0'' ''igw-1'' ''rtb-1'',
        AssociateRouteTableInput ''subnet-p'' ''rtb-1'',
        CreateTagsInput [''rtb-1'']
          (fmap_of_list [(''Name'', ''p''), (''KubernetesCluster'', ''k8s''),
                         (''kubicorn-route-table-subnet-pair'', ''a'')])] \<and>
   ClusterSubnet rtB = Some subnetB \<and>
   subnetB \<in> set (Subnets poolB) \<and> poolB \<in> set (ServerPools clusterB) \<and>
   Subnet.Identifier subnetB = ''subnet-2'' \<and>
   Apply ec2_ok IsEqual (Some 0) (RouteTablePtr (Some 1)) (RouteTablePtr (Some 2))
     (Some clusterB) worldC
     = (Err UnableToFindSubnetId,
        worldC\<lparr>sdk := 3,
                calls := [CreateRouteTableInput ''vpc-1'',
                          DescribeInternetGatewaysInput (gatewayFilter ''k8s''),
                          CreateRouteInput ''0.0.0.0/0'' ''igw-1'' ''rtb-1'']\<rparr>)"
  by (simp add: Apply_defs ex_defs)

subsection \<open>Apply: what it writes to the store\<close>













subsection \<open>The identity tag of the snapshots\<close>


lemma length_one_nth: "length xs = Suc 0 \<Longrightarrow> xs = [xs ! 0]"
  by (cases xs) auto

lemma Actual_identified_Ok:
  assumes "a < length (heap w)" and "CachedActual (heap w ! a) = NilResource"
    and "ClusterSubnet (heap w ! a) = Some sn" and "Subnet.Identifier sn \<noteq> ''''"
    and "Actual ec2 (Some a) known w = (Ok res, w')"
  shows "\<exists>rt tags.
           fst (DescribeRouteTables ec2 (sdk w) (pairFilter (Subnet.Name sn))) = Inr [Some rt] \<and>
           copyTags (ec2_RouteTable.Tags rt) fmempty = Ok tags \<and>
           res = RouteTablePtr (Some (length (heap w))) \<and>
           heap w' = (heap w @
                       [zeroRouteTable\<lparr>RouteTable.Name := Subnet.Name sn,
                                        RouteTable.Tags := tags,
                                        TagResource := TagResource (heap w ! a),
                                        CloudID := Subnet.Name sn\<rparr>])
                     [a := (heap w ! a)\<lparr>CachedActual := RouteTablePtr (Some (length (heap w)))\<rparr>]"
proof -
  let ?d = "DescribeRouteTables ec2 (sdk w) (pairFilter (Subnet.Name sn))"
  from assms obtain rts where rts: "fst ?d = Inr rts" "length rts = Suc 0"
    by (auto simp: Actual_def invoke_eq Let_def split: sum.splits if_splits)
  from rts(2) have one: "rts = [rts ! 0]"
    by (rule length_one_nth)
  from assms rts obtain rt where rt: "rts ! 0 = Some rt"
    by (auto simp: Actual_def invoke_eq Let_def split: option.splits)
  from assms rts rt obtain tags where tags: "copyTags (ec2_RouteTable.Tags rt) fmempty = Ok tags"
    by (auto simp: Actual_def invoke_eq Let_def zeroRouteTable_def split: result.splits)
  from one rt have "fst ?d = Inr [Some rt]"
    using rts(1) by simp
  moreover from assms rts rt tags
  have "res = RouteTablePtr (Some (length (heap w))) \<and>
        heap w' = (heap w @
                       [zeroRouteTable\<lparr>RouteTable.Name := Subnet.Name sn,
                                        RouteTable.Tags := tags,
                                        TagResource := TagResource (heap w ! a),
                                        CloudID := Subnet.Name sn\<rparr>])
                     [a := (heap w ! a)\<lparr>CachedActual := RouteTablePtr (Some (length (heap w)))\<rparr>]"
    by (auto simp: Actual_def invoke_eq Let_def cacheActual_def zeroRouteTable_def nth_append)
  ultimately show ?thesis using tags by blast
qed






lemmas Actual_defs = Actual_def cacheActual_def invoke_eq deref_def Let_def pairFilter_def S_def




subsection \<open>Actual against Expected\<close>

lemma Apply_tag_calls_run:
  "Apply_tag ec2 e rtId w = (res, w') \<Longrightarrow> \<exists>cs. calls w' = calls w @ cs"
  using Apply_tag_calls [of ec2 e rtId w] by simp

lemma Apply_associate_calls_run:
  "Apply_associate ec2 r e c rtId w = (res, w') \<Longrightarrow> \<exists>cs. calls w' = calls w @ cs"
  by (auto simp: Apply_associate_def invoke_eq Let_def
           split: sum.splits option.splits if_splits
           dest!: Apply_tag_calls_run)

lemma Apply_route_calls_run:
  "Apply_route ec2 r e c rtId w = (res, w') \<Longrightarrow> \<exists>cs. calls w' = calls w @ cs"
  by (auto simp: Apply_route_def invoke_eq Let_def
           split: sum.splits option.splits if_splits
           dest!: Apply_associate_calls_run)

lemma Apply_create_calls:
  "\<exists>cs. calls (snd (Apply_create ec2 r e (Some c) w))
          = calls w @ CreateRouteTableInput (Network.Identifier (Network c)) # cs"
proof -
  obtain res w' where run: "Apply_create ec2 r e (Some c) w = (res, w')"
    by (cases "Apply_create ec2 r e (Some c) w")
  then have "\<exists>cs. calls w' = calls w @ CreateRouteTableInput (Network.Identifier (Network c)) # cs"
    by (auto simp: Apply_create_def invoke_eq
             split: sum.splits option.splits
             dest!: Apply_route_calls_run)
  with run show ?thesis by simp
qed

text \<open>
  Claim C10. Let the receiver have no cached snapshot, a subnet with an Identifier, and a
  server pool whose Name differs from the subnet's Name. When \<open>Actual\<close> and then
  \<open>Expected\<close> succeed, the actual snapshot has the subnet's Name as Name and CloudID and
  the expected snapshot has the pool's Name as Name and CloudID, so both fields differ;
  the spec's comparator reports them unequal; \<open>Apply\<close> on them, with any provider and
  cluster, does not return early: its first request creates a route table. Later calls of
  \<open>Actual\<close> and \<open>Expected\<close> on the receiver return these same two snapshots from the cache.
\<close>

theorem Actual_Expected_compare_unequal:
  assumes "deref (heap w) r = Some R"
    and "CachedActual R = NilResource" and "CachedExpected R = NilResource"
    and "ClusterSubnet R = Some sn" and "ServerPool R = Some sp"
    and "Subnet.Identifier sn \<noteq> ''''"
    and "Subnet.Name sn \<noteq> ServerPool.Name sp"
    and "Actual ec2 r known w = (Ok a, w1)"
    and "Expected r (Some k) w1 = (Ok e, w2)"
  shows "a = RouteTablePtr (Some (length (heap w))) \<and>
         e = RouteTablePtr (Some (Suc (length (heap w)))) \<and>
         RouteTable.Name (heap w2 ! length (heap w)) = Subnet.Name sn \<and>
         CloudID (heap w2 ! length (heap w)) = Subnet.Name sn \<and>
         RouteTable.Name (heap w2 ! Suc (length (heap w))) = ServerPool.Name sp \<and>
         CloudID (heap w2 ! Suc (length (heap w))) = ServerPool.Name sp \<and>
         IsEqual (heap w2) (Some (length (heap w))) (Some (Suc (length (heap w)))) = Ok False \<and>
         (\<exists>cs. calls (snd (Apply ec2' IsEqual r a e (Some c) w2))
                 = calls w2 @ CreateRouteTableInput (Network.Identifier (Network c)) # cs) \<and>
         Actual ec2' r known' w2 = (Ok a, w2) \<and>
         Expected r known' w2 = (Ok e, w2)"
proof -
  let ?n = "length (heap w)"
  from assms(1) obtain p where p: "r = Some p" "p < ?n" "heap w ! p = R"
    by (auto simp: deref_Some)
  from Actual_identified_Ok [of p w sn ec2 known a w1] p assms(2,4,6,8)
  obtain tags where a: "a = RouteTablePtr (Some ?n)"
    and h1: "heap w1 = (heap w @
                       [zeroRouteTable\<lparr>RouteTable.Name := Subnet.Name sn,
                                        RouteTable.Tags := tags,
                                        TagResource := TagResource R,
                                        CloudID := Subnet.Name sn\<rparr>])
                     [p := R\<lparr>CachedActual := RouteTablePtr (Some ?n)\<rparr>]"
    by auto
  from h1 p have l1: "length (heap w1) = Suc ?n"
    and r1: "heap w1 ! p = R\<lparr>CachedActual := RouteTablePtr (Some ?n)\<rparr>"
    and a1: "heap w1 ! ?n = zeroRouteTable\<lparr>RouteTable.Name := Subnet.Name sn,
                                        RouteTable.Tags := tags,
                                        TagResource := TagResource R,
                                        CloudID := Subnet.Name sn\<rparr>"
    by (simp_all add: nth_list_update nth_append)
  have p1: "p < length (heap w1)"
    using p l1 by simp
  have c1: "CachedExpected (heap w1 ! p) = NilResource"
    "ClusterSubnet (heap w1 ! p) = Some sn" "ServerPool (heap w1 ! p) = Some sp"
    using r1 assms(3,4,5) by simp_all
  have run2: "Expected (Some p) (Some k) w1 = (Ok e, w2)"
    using assms(9) p(1) by simp
  note F = Expected_fresh [OF p1 c1, of k]
  from run2 F l1 have e: "e = RouteTablePtr (Some (Suc ?n))"
    by auto
  from run2 F l1 p a1 r1 have l2: "length (heap w2) = Suc (Suc ?n)"
    and a2: "RouteTable.Name (heap w2 ! ?n) = Subnet.Name sn"
            "CloudID (heap w2 ! ?n) = Subnet.Name sn"
    and e2: "RouteTable.Name (heap w2 ! Suc ?n) = ServerPool.Name sp"
            "CloudID (heap w2 ! Suc ?n) = ServerPool.Name sp"
    by (auto simp: nth_list_update nth_append zeroRouteTable_def)
  from run2 F l1 p r1
  have r2: "heap w2 ! p = R\<lparr>CachedActual := RouteTablePtr (Some ?n),
                                CachedExpected := RouteTablePtr (Some (Suc ?n))\<rparr>"
    by (auto simp: nth_list_update nth_append)
  have again: "Actual ec2' r known' w2 = (Ok a, w2)" "Expected r known' w2 = (Ok e, w2)"
    using r2 l2 p(1,2) a e by (simp_all add: Actual_def Expected_def)
  from l2 a2 e2 assms(7)
  have ne: "IsEqual (heap w2) (Some ?n) (Some (Suc ?n)) = Ok False"
    by (simp add: IsEqual_def deref_def)
  then have "Apply ec2' IsEqual r a e (Some c) w2 = Apply_create ec2' r (Some (Suc ?n)) (Some c) w2"
    by (simp add: Apply_def a e)
  with Apply_create_calls [of ec2' r "Some (Suc ?n)" c w2]
  have "\<exists>cs. calls (snd (Apply ec2' IsEqual r a e (Some c) w2))
                 = calls w2 @ CreateRouteTableInput (Network.Identifier (Network c)) # cs"
    by simp
  with a e a2 e2 ne again show ?thesis by blast
qed

theorem Actual_Expected_compare_unequal_witness:
  "deref (heap worldB) (Some 0) = Some rtB \<and>
   Subnet.Name subnetB = ''sn'' \<and> ServerPool.Name poolB = ''pool'' \<and>
   Subnet.Identifier subnetB = ''subnet-2'' \<and>
   fst (Actual ec2_ok (Some 0) (Some clusterB) worldB) = Ok (RouteTablePtr (Some 1)) \<and>
   fst (Expected (Some 0) (Some clusterB) (snd (Actual ec2_ok (Some 0) (Some clusterB) worldB)))
     = Ok (RouteTablePtr (Some 2)) \<and>
   IsEqual (heap (snd (Expected (Some 0) (Some clusterB)
                         (snd (Actual ec2_ok (Some 0) (Some clusterB) worldB)))))
     (Some 1) (Some 2) = Ok False \<and>
   (\<exists>cs. calls (snd (Apply ec2_ok IsEqual (Some 0) (RouteTablePtr (Some 1))
                       (RouteTablePtr (Some 2)) (Some clusterB)
                       (snd (Expected (Some 0) (Some clusterB)
                               (snd (Actual ec2_ok (Some 0) (Some clusterB) worldB))))))
           = calls (snd (Expected (Some 0) (Some clusterB)
                           (snd (Actual ec2_ok (Some 0) (Some clusterB) worldB))))
             @ CreateRouteTableInput ''vpc-1'' # cs)"
proof -
  let ?a = "Actual ec2_ok (Some 0) (Some clusterB) worldB"
  let ?e = "Expected (Some 0) (Some clusterB) (snd ?a)"
  have d: "deref (heap worldB) (Some 0) = Some rtB"
    by (simp add: deref_def worldB_def)
  have f: "CachedActual rtB = NilResource" "CachedExpected rtB = NilResource"
    "ClusterSubnet rtB = Some subnetB" "ServerPool rtB = Some poolB"
    by (simp_all add: rtB_def zeroRouteTable_def)
  have n: "Subnet.Name subnetB = ''sn''" "ServerPool.Name poolB = ''pool''"
    and i: "Subnet.Identifier subnetB = ''subnet-2''"
    and l: "length (heap worldB) = 1"
    and v: "Network.Identifier (Network clusterB) = ''vpc-1''"
    by (simp_all add: subnetB_def poolB_def worldB_def clusterB_def)
  have i': "Subnet.Identifier subnetB \<noteq> ''''"
    by (simp add: i)
  have ne: "Subnet.Name subnetB \<noteq> ServerPool.Name poolB"
    by (simp add: n)
  have a: "fst ?a = Ok (RouteTablePtr (Some 1))"
    by (simp add: Actual_defs ex_defs)
  then have a': "?a = (Ok (RouteTablePtr (Some 1)), snd ?a)"
    by (simp add: prod_eq_iff)
  have e: "fst ?e = Ok (RouteTablePtr (Some 2))"
    by (simp add: Expected_def cacheExpected_def Actual_defs ex_defs)
  then have e': "?e = (Ok (RouteTablePtr (Some 2)), snd ?e)"
    by (simp add: prod_eq_iff)
  note T = Actual_Expected_compare_unequal
             [OF d f(1,2,3,4) i' ne a' e', where ?ec2' = ec2_ok and c = clusterB]
  from T have "IsEqual (heap (snd ?e)) (Some (length (heap worldB)))
                 (Some (Suc (length (heap worldB)))) = Ok False"
    by blast
  then have t1: "IsEqual (heap (snd ?e)) (Some 1) (Some 2) = Ok False"
    unfolding l by (simp add: numeral_2_eq_2)
  from T have "\<exists>cs. calls (snd (Apply ec2_ok IsEqual (Some 0) (RouteTablePtr (Some 1))
                       (RouteTablePtr (Some 2)) (Some clusterB) (snd ?e)))
           = calls (snd ?e) @ CreateRouteTableInput (Network.Identifier (Network clusterB)) # cs"
    by blast
  then have t2: "\<exists>cs. calls (snd (Apply ec2_ok IsEqual (Some 0) (RouteTablePtr (Some 1))
                       (RouteTablePtr (Some 2)) (Some clusterB) (snd ?e)))
           = calls (snd ?e) @ CreateRouteTableInput ''vpc-1'' # cs"
    unfolding v .
  show ?thesis
    by (intro conjI d n i a e t1 t2)
qed

subsection \<open>Apply on equal snapshots, and a second pass\<close>

lemma Actual_identified_succeeds:
  assumes "a < length (heap w)" and "CachedActual (heap w ! a) = NilResource"
    and "ClusterSubnet (heap w ! a) = Some sn" and "Subnet.Identifier sn \<noteq> ''''"
    and "fst (DescribeRouteTables ec2 (sdk w) (pairFilter (Subnet.Name sn))) = Inr [Some rt]"
    and "copyTags (ec2_RouteTable.Tags rt) fmempty = Ok tags"
  shows "fst (Actual ec2 (Some a) known w) = Ok (RouteTablePtr (Some (length (heap w))))"
  using assms
  by (simp add: Actual_def invoke_eq cacheActual_def Let_def zeroRouteTable_def)

text \<open>
  Claim C1 concludes that a second \<open>Apply\<close> with identical desired state performs no
  provider mutation. On one receiver, after a pass that has created the route table,
  \<open>Actual\<close> and \<open>Expected\<close> return the snapshots of the first pass from the cache; they
  compare unequal as before, and \<open>Apply\<close> with the same arguments sends the same five
  requests again.

  Claim C1 as amended. Whenever the comparator reports that the actual and the expected
  snapshot are equal, \<open>Apply\<close> returns the expected snapshot itself and leaves the world as
  it was: the store, the provider's state and the log of requests are unchanged, so no
  provider call is made. This is the case in a pass on a receiver without cached snapshots
  whose subnet has an Identifier and the Name of its server pool, when the provider finds
  one route table whose tags are exactly the three expected ones: \<open>Actual\<close> and \<open>Expected\<close>
  succeed, the spec's comparator reports their snapshots equal, and \<open>Apply\<close> on them, with
  any provider and cluster, is that no-op.
\<close>

theorem Apply_noop_on_equal_snapshots:
  "(isEqualFn (heap w) a e = Ok True \<longrightarrow>
      Apply ec2 isEqualFn r (RouteTablePtr a) (RouteTablePtr e) applyCluster w
        = (Ok (RouteTablePtr e), w)) \<and>
   (deref (heap w0) r0 = Some R \<and>
    CachedActual R = NilResource \<and> CachedExpected R = NilResource \<and>
    ClusterSubnet R = Some sn \<and> ServerPool R = Some sp \<and>
    Subnet.Identifier sn \<noteq> '''' \<and> Subnet.Name sn = ServerPool.Name sp \<and>
    fst (DescribeRouteTables ec2' (sdk w0) (pairFilter (Subnet.Name sn))) = Inr [Some rt] \<and>
    copyTags (ec2_RouteTable.Tags rt) fmempty
      = Ok (fmap_of_list [(''Name'', RouteTable.Name R),
                          (''KubernetesCluster'', Cluster.Name k),
                          (''kubicorn-route-table-subnet-pair'', Subnet.Name sn)]) \<and>
    Actual ec2' r0 known w0 = (actual, w1) \<and>
    Expected r0 (Some k) w1 = (expected, w2)
      \<longrightarrow> actual = Ok (RouteTablePtr (Some (length (heap w0)))) \<and>
          expected = Ok (RouteTablePtr (Some (Suc (length (heap w0))))) \<and>
          IsEqual (heap w2) (Some (length (heap w0))) (Some (Suc (length (heap w0)))) = Ok True \<and>
          Apply ec2'' IsEqual r0 (RouteTablePtr (Some (length (heap w0))))
            (RouteTablePtr (Some (Suc (length (heap w0))))) applyCluster' w2
            = (Ok (RouteTablePtr (Some (Suc (length (heap w0))))), w2))"
proof (rule conjI; rule impI)
  assume "isEqualFn (heap w) a e = Ok True"
  then show "Apply ec2 isEqualFn r (RouteTablePtr a) (RouteTablePtr e) applyCluster w
               = (Ok (RouteTablePtr e), w)"
    by (simp add: Apply_def)
next
  let ?n = "length (heap w0)"
  let ?tags = "fmap_of_list [(''Name'', RouteTable.Name R),
                          (''KubernetesCluster'', Cluster.Name k),
                          (''kubicorn-route-table-subnet-pair'', Subnet.Name sn)]"
  assume H: "deref (heap w0) r0 = Some R \<and>
    CachedActual R = NilResource \<and> CachedExpected R = NilResource \<and>
    ClusterSubnet R = Some sn \<and> ServerPool R = Some sp \<and>
    Subnet.Identifier sn \<noteq> '''' \<and> Subnet.Name sn = ServerPool.Name sp \<and>
    fst (DescribeRouteTables ec2' (sdk w0) (pairFilter (Subnet.Name sn))) = Inr [Some rt] \<and>
    copyTags (ec2_RouteTable.Tags rt) fmempty = Ok ?tags \<and>
    Actual ec2' r0 known w0 = (actual, w1) \<and>
    Expected r0 (Some k) w1 = (expected, w2)"
  then have d: "deref (heap w0) r0 = Some R" and ca: "CachedActual R = NilResource"
    and ce: "CachedExpected R = NilResource" and sn: "ClusterSubnet R = Some sn"
    and sp: "ServerPool R = Some sp" and idt: "Subnet.Identifier sn \<noteq> ''''"
    and same: "Subnet.Name sn = ServerPool.Name sp"
    and q: "fst (DescribeRouteTables ec2' (sdk w0) (pairFilter (Subnet.Name sn))) = Inr [Some rt]"
    and ct: "copyTags (ec2_RouteTable.Tags rt) fmempty = Ok ?tags"
    and runA: "Actual ec2' r0 known w0 = (actual, w1)"
    and runE: "Expected r0 (Some k) w1 = (expected, w2)"
    by blast+
  from d obtain p where p: "r0 = Some p" "p < ?n" "heap w0 ! p = R"
    by (auto simp: deref_Some)
  have okA: "actual = Ok (RouteTablePtr (Some ?n))"
    using Actual_identified_succeeds [of p w0 sn ec2' rt ?tags known] p ca sn idt q ct runA
    by simp
  from Actual_identified_Ok [of p w0 sn ec2' known "RouteTablePtr (Some ?n)" w1]
       p ca sn idt runA okA
  obtain rt' tags' where
    q': "fst (DescribeRouteTables ec2' (sdk w0) (pairFilter (Subnet.Name sn))) = Inr [Some rt']"
    and ct': "copyTags (ec2_RouteTable.Tags rt') fmempty = Ok tags'"
    and h1: "heap w1 = (heap w0 @
                       [zeroRouteTable\<lparr>RouteTable.Name := Subnet.Name sn,
                                        RouteTable.Tags := tags',
                                        TagResource := TagResource R,
                                        CloudID := Subnet.Name sn\<rparr>])
                     [p := R\<lparr>CachedActual := RouteTablePtr (Some ?n)\<rparr>]"
    by auto
  from q q' ct ct' have tags': "tags' = ?tags"
    by simp
  from h1 p have l1: "length (heap w1) = Suc ?n"
    and r1: "heap w1 ! p = R\<lparr>CachedActual := RouteTablePtr (Some ?n)\<rparr>"
    and a1: "heap w1 ! ?n = zeroRouteTable\<lparr>RouteTable.Name := Subnet.Name sn,
                                        RouteTable.Tags := tags',
                                        TagResource := TagResource R,
                                        CloudID := Subnet.Name sn\<rparr>"
    by (simp_all add: nth_list_update nth_append)
  have p1: "p < length (heap w1)"
    using p l1 by simp
  have c1: "CachedExpected (heap w1 ! p) = NilResource"
    "ClusterSubnet (heap w1 ! p) = Some sn" "ServerPool (heap w1 ! p) = Some sp"
    using r1 ce sn sp by simp_all
  have run2: "Expected (Some p) (Some k) w1 = (expected, w2)"
    using runE p(1) by simp
  note F = Expected_fresh [OF p1 c1, of k]
  from run2 F l1 have okE: "expected = Ok (RouteTablePtr (Some (Suc ?n)))"
    by auto
  from run2 F l1 p a1 r1 have l2: "length (heap w2) = Suc (Suc ?n)"
    and a2: "RouteTable.Name (heap w2 ! ?n) = Subnet.Name sn"
            "CloudID (heap w2 ! ?n) = Subnet.Name sn"
            "RouteTable.Tags (heap w2 ! ?n) = tags'"
    and e2: "RouteTable.Name (heap w2 ! Suc ?n) = ServerPool.Name sp"
            "CloudID (heap w2 ! Suc ?n) = ServerPool.Name sp"
            "RouteTable.Tags (heap w2 ! Suc ?n) = ?tags"
    by (auto simp: nth_list_update nth_append zeroRouteTable_def)
  from l2 a2 e2 same tags'
  have eq: "IsEqual (heap w2) (Some ?n) (Some (Suc ?n)) = Ok True"
    by (simp add: IsEqual_def deref_def)
  then have "Apply ec2'' IsEqual r0 (RouteTablePtr (Some ?n)) (RouteTablePtr (Some (Suc ?n)))
               applyCluster' w2 = (Ok (RouteTablePtr (Some (Suc ?n))), w2)"
    by (simp add: Apply_def)
  with okA okE eq
  show "actual = Ok (RouteTablePtr (Some ?n)) \<and>
        expected = Ok (RouteTablePtr (Some (Suc ?n))) \<and>
        IsEqual (heap w2) (Some ?n) (Some (Suc ?n)) = Ok True \<and>
        Apply ec2'' IsEqual r0 (RouteTablePtr (Some ?n)) (RouteTablePtr (Some (Suc ?n)))
          applyCluster' w2 = (Ok (RouteTablePtr (Some (Suc ?n))), w2)"
    by blast
qed

theorem Apply_noop_on_equal_snapshots_witness:
  "IsEqual (heap worldE) (Some 1) (Some 2) = Ok True \<and>
   Apply ec2_ok IsEqual (Some 0) (RouteTablePtr (Some 1)) (RouteTablePtr (Some 2))
     (Some clusterA) worldE
     = (Ok (RouteTablePtr (Some 2)), worldE) \<and>
   deref (heap worldA0) (Some 0) = Some rtA \<and>
   Subnet.Name subnetA = ServerPool.Name poolA \<and>
   fst (DescribeRouteTables ec2_tagged (sdk worldA0) (pairFilter (Subnet.Name subnetA)))
     = Inr [Some remoteTableA] \<and>
   fst (Actual ec2_tagged (Some 0) (Some clusterA) worldA0) = Ok (RouteTablePtr (Some 1)) \<and>
   fst (Expected (Some 0) (Some clusterA)
          (snd (Actual ec2_tagged (Some 0) (Some clusterA) worldA0)))
     = Ok (RouteTablePtr (Some 2)) \<and>
   Apply ec2_ok IsEqual (Some 0) (RouteTablePtr (Some 1)) (RouteTablePtr (Some 2))
     (Some clusterA)
     (snd (Expected (Some 0) (Some clusterA)
             (snd (Actual ec2_tagged (Some 0) (Some clusterA) worldA0))))
     = (Ok (RouteTablePtr (Some 2)),
        snd (Expected (Some 0) (Some clusterA)
               (snd (Actual ec2_tagged (Some 0) (Some clusterA) worldA0))))"
proof -
  let ?a = "Actual ec2_tagged (Some 0) (Some clusterA) worldA0"
  let ?e = "Expected (Some 0) (Some clusterA) (snd ?a)"
  note T = Apply_noop_on_equal_snapshots
    [where isEqualFn = IsEqual and w = worldE and a = "Some 1" and e = "Some 2"
       and ?ec2.0 = ec2_ok and r = "Some 0" and applyCluster = "Some clusterA"
       and ?w0.0 = worldA0 and ?r0.0 = "Some 0" and R = rtA and sn = subnetA and sp = poolA
       and ?ec2' = ec2_tagged and rt = remoteTableA and k = clusterA
       and known = "Some clusterA" and actual = "fst ?a" and ?w1.0 = "snd ?a"
       and expected = "fst ?e" and ?w2.0 = "snd ?e"
       and ?ec2'' = ec2_ok and ?applyCluster' = "Some clusterA"]
  have eq: "IsEqual (heap worldE) (Some 1) (Some 2) = Ok True"
    by (simp add: IsEqual_def deref_def worldE_def)
  have d: "deref (heap worldA0) (Some 0) = Some rtA"
    by (simp add: deref_def worldA0_def)
  have f: "CachedActual rtA = NilResource" "CachedExpected rtA = NilResource"
    "ClusterSubnet rtA = Some subnetA" "ServerPool rtA = Some poolA"
    by (simp_all add: rtA_def zeroRouteTable_def)
  have i: "Subnet.Identifier subnetA \<noteq> ''''"
    and same: "Subnet.Name subnetA = ServerPool.Name poolA"
    and l: "length (heap worldA0) = 1"
    by (simp_all add: subnetA_def poolA_def worldA0_def)
  have q: "fst (DescribeRouteTables ec2_tagged (sdk worldA0) (pairFilter (Subnet.Name subnetA)))
             = Inr [Some remoteTableA]"
    by (simp add: ec2_tagged_def ec2_ok_def)
  have ct: "copyTags (ec2_RouteTable.Tags remoteTableA) fmempty
              = Ok (fmap_of_list [(''Name'', RouteTable.Name rtA),
                                  (''KubernetesCluster'', Cluster.Name clusterA),
                                  (''kubicorn-route-table-subnet-pair'', Subnet.Name subnetA)])"
    by (simp add: remoteTableA_def rtA_def zeroRouteTable_def clusterA_def subnetA_def)
  have ra: "?a = (fst ?a, snd ?a)" and re: "?e = (fst ?e, snd ?e)"
    by simp_all
  from T eq have t1: "Apply ec2_ok IsEqual (Some 0) (RouteTablePtr (Some 1))
                        (RouteTablePtr (Some 2)) (Some clusterA) worldE
                        = (Ok (RouteTablePtr (Some 2)), worldE)"
    by blast
  from T d f i same q ct ra re
  have t2: "fst ?a = Ok (RouteTablePtr (Some (length (heap worldA0)))) \<and>
          fst ?e = Ok (RouteTablePtr (Some (Suc (length (heap worldA0))))) \<and>
          IsEqual (heap (snd ?e)) (Some (length (heap worldA0)))
            (Some (Suc (length (heap worldA0)))) = Ok True \<and>
          Apply ec2_ok IsEqual (Some 0) (RouteTablePtr (Some (length (heap worldA0))))
            (RouteTablePtr (Some (Suc (length (heap worldA0))))) (Some clusterA) (snd ?e)
            = (Ok (RouteTablePtr (Some (Suc (length (heap worldA0))))), snd ?e)"
    by blast
  from t2 have t3: "fst ?a = Ok (RouteTablePtr (Some 1))"
    "fst ?e = Ok (RouteTablePtr (Some 2))"
    "Apply ec2_ok IsEqual (Some 0) (RouteTablePtr (Some 1)) (RouteTablePtr (Some 2))
       (Some clusterA) (snd ?e) = (Ok (RouteTablePtr (Some 2)), snd ?e)"
    unfolding l by (simp_all add: numeral_2_eq_2)
  show ?thesis
    by (intro conjI eq t1 d same q t3)
qed

theorem second_Apply_repeats_requests_counterexample:
  "fst (Actual ec2_ok (Some 0) (Some clusterA) worldF) = Ok (RouteTablePtr (Some 1)) \<and>
   fst (Expected (Some 0) (Some clusterA) (snd (Actual ec2_ok (Some 0) (Some clusterA) worldF)))
     = Ok (RouteTablePtr (Some 2)) \<and>
   calls pass1
     = [CreateRouteTableInput ''vpc-1'',
        DescribeInternetGatewaysInput (gatewayFilter ''k8s''),
        CreateRouteInput ''0.0.0.0/0'' ''igw-1'' ''rtb-1'',
        AssociateRouteTableInput ''subnet-1'' ''rtb-1'',
        CreateTagsInput [''rtb-1'']
          (fmap_of_list [(''Name'', ''pool-a''), (''KubernetesCluster'', ''k8s''),
                         (''kubicorn-route-table-subnet-pair'', ''pool-a'')])] \<and>
   Actual ec2_ok (Some 0) (Some clusterA) pass1 = (Ok (RouteTablePtr (Some 1)), pass1) \<and>
   Expected (Some 0) (Some clusterA) pass1 = (Ok (RouteTablePtr (Some 2)), pass1) \<and>
   fst (Apply ec2_ok IsEqual (Some 0) (RouteTablePtr (Some 1)) (RouteTablePtr (Some 2))
          (Some clusterA) pass1) = Ok (RouteTablePtr (Some 4)) \<and>
   calls (snd (Apply ec2_ok IsEqual (Some 0) (RouteTablePtr (Some 1)) (RouteTablePtr (Some 2))
                 (Some clusterA) pass1))
     = calls pass1 @
       [CreateRouteTableInput ''vpc-1'',
        DescribeInternetGatewaysInput (gatewayFilter ''k8s''),
        CreateRouteInput ''0.0.0.0/0'' ''igw-1'' ''rtb-1'',
        AssociateRouteTableInput ''subnet-1'' ''rtb-1'',
        CreateTagsInput [''rtb-1'']
          (fmap_of_list [(''Name'', ''pool-a''), (''KubernetesCluster'', ''k8s''),
                         (''kubicorn-route-table-subnet-pair'', ''pool-a'')])]"
proof -
  have p: "pass1 =
     \<lparr>heap = [rtF\<lparr>CachedActual := RouteTablePtr (Some 1),
                    CachedExpected := RouteTablePtr (Some 2)\<rparr>,
               emptyActual,
               expectedA\<lparr>CloudID := ''rtb-1''\<rparr>,
               zeroRouteTable\<lparr>CloudID := ''rtb-1'', RouteTable.Name := ''pool-a''\<rparr>],
      sdk = 5,
      calls = [CreateRouteTableInput ''vpc-1'',
        DescribeInternetGatewaysInput (gatewayFilter ''k8s''),
        CreateRouteInput ''0.0.0.0/0'' ''igw-1'' ''rtb-1'',
        AssociateRouteTableInput ''subnet-1'' ''rtb-1'',
        CreateTagsInput [''rtb-1'']
          (fmap_of_list [(''Name'', ''pool-a''), (''KubernetesCluster'', ''k8s''),
                         (''kubicorn-route-table-subnet-pair'', ''pool-a'')])]\<rparr>"
    by (simp add: pass1_def Apply_defs Actual_def Expected_def cacheActual_def
                  cacheExpected_def gatewayFilter_def ex_defs)
  have a1: "fst (Actual ec2_ok (Some 0) (Some clusterA) worldF) = Ok (RouteTablePtr (Some 1))"
    by (simp add: Actual_def cacheActual_def ex_defs)
  have e1: "fst (Expected (Some 0) (Some clusterA)
                   (snd (Actual ec2_ok (Some 0) (Some clusterA) worldF)))
              = Ok (RouteTablePtr (Some 2))"
    by (simp add: Actual_def cacheActual_def Expected_def cacheExpected_def ex_defs)
  have c: "calls pass1
     = [CreateRouteTableInput ''vpc-1'',
        DescribeInternetGatewaysInput (gatewayFilter ''k8s''),
        CreateRouteInput ''0.0.0.0/0'' ''igw-1'' ''rtb-1'',
        AssociateRouteTableInput ''subnet-1'' ''rtb-1'',
        CreateTagsInput [''rtb-1'']
          (fmap_of_list [(''Name'', ''pool-a''), (''KubernetesCluster'', ''k8s''),
                         (''kubicorn-route-table-subnet-pair'', ''pool-a'')])]"
    by (simp add: p)
  have a2: "Actual ec2_ok (Some 0) (Some clusterA) pass1 = (Ok (RouteTablePtr (Some 1)), pass1)"
    by (simp add: p Actual_def)
  have e2: "Expected (Some 0) (Some clusterA) pass1 = (Ok (RouteTablePtr (Some 2)), pass1)"
    by (simp add: p Expected_def)
  have r: "fst (Apply ec2_ok IsEqual (Some 0) (RouteTablePtr (Some 1)) (RouteTablePtr (Some 2))
          (Some clusterA) pass1) = Ok (RouteTablePtr (Some 4))"
    by (simp add: p Apply_defs ex_defs)
  have c2: "calls (snd (Apply ec2_ok IsEqual (Some 0) (RouteTablePtr (Some 1))
                 (RouteTablePtr (Some 2)) (Some clusterA) pass1))
     = calls pass1 @
       [CreateRouteTableInput ''vpc-1'',
        DescribeInternetGatewaysInput (gatewayFilter ''k8s''),
        CreateRouteInput ''0.0.0.0/0'' ''igw-1'' ''rtb-1'',
        AssociateRouteTableInput ''subnet-1'' ''rtb-1'',
        CreateTagsInput [''rtb-1'']
          (fmap_of_list [(''Name'', ''pool-a''), (''KubernetesCluster'', ''k8s''),
                         (''kubicorn-route-table-subnet-pair'', ''pool-a'')])]"
    by (simp add: p Apply_defs gatewayFilter_def ex_defs)
  show ?thesis
    by (intro conjI a1 e1 c a2 e2 r c2)
qed

end
